theory Spec2Isabelle
  imports Complex_Main
begin

section \<open>Machine integers of the Go code\<close>

text \<open>
  The service is built for a 64-bit target, so Go's \<open>int\<close> and \<open>int64\<close> are 64-bit
  two's complement and \<open>int32\<close> (the type sqlc gives to \<open>id\<close>, \<open>LIMIT\<close> and
  \<open>OFFSET\<close>) is 32-bit. Values are kept as \<open>int\<close>; every operation of the source that can
  leave the range has its wrap-around written out.
\<close>

definition wrap64 :: "int \<Rightarrow> int" where
  "wrap64 x = signed_take_bit 63 x"

text \<open>The conversion \<open>int32(x)\<close>: the low 32 bits, read as two's complement.\<close>

definition int32 :: "int \<Rightarrow> int" where
  "int32 x = signed_take_bit 31 x"

definition int_sub :: "int \<Rightarrow> int \<Rightarrow> int" where
  "int_sub a b = wrap64 (a - b)"

definition int_mul :: "int \<Rightarrow> int \<Rightarrow> int" where
  "int_mul a b = wrap64 (a * b)"

definition int_inc :: "int \<Rightarrow> int" where
  "int_inc a = wrap64 (a + 1)"

text \<open>Go's \<open>/\<close> and \<open>%\<close> truncate towards zero; the caller checks the divisor first.\<close>

definition int_quo :: "int \<Rightarrow> int \<Rightarrow> int" where
  "int_quo a b = wrap64 (sgn a * sgn b * (\<bar>a\<bar> div \<bar>b\<bar>))"

definition int_rem :: "int \<Rightarrow> int \<Rightarrow> int" where
  "int_rem a b = sgn a * (\<bar>a\<bar> mod \<bar>b\<bar>)"

section \<open>Data model\<close>

type_synonym time = int

text \<open>
  Go errors are compared by identity (\<open>err == sql.ErrNoRows\<close>) and shown by their text.
  Each constructor stands for one error value or one format string of the source, so two
  errors have the same text exactly when they are the same term:
  \<^item> \<open>ErrNoRows\<close> is \<open>sql.ErrNoRows\<close>; \<open>DriverError m\<close> is any other error of the
    driver or the server, with its message; \<open>BcryptError m\<close> is an error of the bcrypt package;
  \<^item> \<open>ErrHashing e\<close>, \<open>ErrCreate e\<close>, \<open>ErrGet e\<close>, \<open>ErrList e\<close>, \<open>ErrCount e\<close>,
    \<open>ErrUpdate e\<close>, \<open>ErrDelete e\<close>, \<open>ErrVerify e\<close> are the \<open>fmt.Errorf("...: %w", err)\<close>
    wrappers of CreateUser (hashing, insert), GetUserByID, ListUsers (list, count), UpdateUser,
    DeleteUser and VerifyPassword;
  \<^item> \<open>ErrUserNotFound\<close> is the "user not found" error of GetUserByID and UpdateUser;
  \<^item> \<open>ErrBadCredentials\<close> is the "wrong email or password" error, which VerifyPassword
    builds at two places from the same text.
\<close>

datatype error =
    ErrNoRows
  | DriverError string
  | BcryptError string
  | ErrHashing error
  | ErrCreate error
  | ErrUserNotFound
  | ErrGet error
  | ErrList error
  | ErrCount error
  | ErrUpdate error
  | ErrDelete error
  | ErrBadCredentials
  | ErrVerify error

text \<open>\<open>sql.NullString\<close> and \<open>sql.NullBool\<close>, as the structs they are.\<close>

record NullString =
  String :: string
  Valid :: bool

record NullBool =
  Bool :: bool
  BValid :: bool

text \<open>The zero values, which a struct literal leaves in the fields it does not name.\<close>

definition NullString_zero :: NullString where
  "NullString_zero = \<lparr>String = [], Valid = False\<rparr>"

definition NullBool_zero :: NullBool where
  "NullBool_zero = \<lparr>Bool = False, BValid = False\<rparr>"

text \<open>
  What the driver sends for a parameter (\<open>Value\<close>: NULL unless \<open>Valid\<close>) and what it
  reads from a column (\<open>Scan\<close>: NULL gives the empty string with \<open>Valid = false\<close>).
\<close>

definition NullString_Value :: "NullString \<Rightarrow> string option" where
  "NullString_Value ns = (if Valid ns then Some (String ns) else None)"

definition NullBool_Value :: "NullBool \<Rightarrow> bool option" where
  "NullBool_Value nb = (if BValid nb then Some (Bool nb) else None)"

definition NullString_Scan :: "string option \<Rightarrow> NullString" where
  "NullString_Scan v = (case v of None \<Rightarrow> \<lparr>String = [], Valid = False\<rparr>
                                 | Some s \<Rightarrow> \<lparr>String = s, Valid = True\<rparr>)"

text \<open>
  A row of table \<open>users\<close> (migration 000001). \<open>first_name\<close> and \<open>last_name\<close> are
  nullable. \<open>is_active\<close> is read into a plain \<open>bool\<close> by the service, and no statement of
  the repository can store NULL in it, so the column is a \<open>bool\<close> here.
\<close>

record users_row =
  col_id :: int
  col_email :: string
  col_username :: string
  col_password_hash :: string
  col_first_name :: "string option"
  col_last_name :: "string option"
  col_is_active :: bool
  col_created_at :: time
  col_updated_at :: time

text \<open>\<open>repository.User\<close>: the struct a row is scanned into.\<close>

record User =
  ID :: int
  Email :: string
  Username :: string
  PasswordHash :: string
  FirstName :: NullString
  LastName :: NullString
  IsActive :: bool
  CreatedAt :: time
  UpdatedAt :: time

definition scan_User :: "users_row \<Rightarrow> User" where
  "scan_User r =
     \<lparr>ID = col_id r, Email = col_email r, Username = col_username r,
      PasswordHash = col_password_hash r,
      FirstName = NullString_Scan (col_first_name r),
      LastName = NullString_Scan (col_last_name r),
      IsActive = col_is_active r,
      CreatedAt = col_created_at r, UpdatedAt = col_updated_at r\<rparr>"

text \<open>
  The storage: the rows of \<open>users\<close>, the last value of the sequence behind \<open>id SERIAL\<close>,
  the value of \<open>CURRENT_TIMESTAMP\<close> for the next statement, and \<open>fault\<close>: the message with
  which the storage rejects every statement while it is unavailable (connection lost,
  request context cancelled). Column widths (\<open>VARCHAR(n)\<close>) are outside this model: strings
  are taken to fit their columns.
\<close>

record database =
  users :: "users_row list"
  users_id_seq :: int
  now :: time
  fault :: "string option"

section \<open>Repository: the SQL statements\<close>

record CreateUserParams =
  ins_Email :: string
  ins_Username :: string
  ins_PasswordHash :: string
  ins_FirstName :: NullString
  ins_LastName :: NullString

record UpdateUserParams =
  par_ID :: int
  par_Email :: NullString
  par_Username :: NullString
  par_FirstName :: NullString
  par_LastName :: NullString
  par_IsActive :: NullBool

record ListUsersParams =
  Limit :: int
  Offset :: int

text \<open>The two UNIQUE constraints and the primary key, checked on the table a statement leaves.\<close>

definition unique_ok :: "users_row list \<Rightarrow> bool" where
  "unique_ok rows \<longleftrightarrow>
     distinct (map col_id rows) \<and> distinct (map col_email rows) \<and>
     distinct (map col_username rows)"

text \<open>
  \<open>CreateUser :one\<close>: INSERT ... RETURNING *. The id comes from the sequence, which advances
  even when the insert is rejected; \<open>is_active\<close>, \<open>created_at\<close> and \<open>updated_at\<close> take
  their column defaults.
\<close>

definition sql_CreateUser :: "database \<Rightarrow> CreateUserParams \<Rightarrow> (error + User) \<times> database" where
  "sql_CreateUser db p =
     (case fault db of
        Some m \<Rightarrow> (Inl (DriverError m), db)
      | None \<Rightarrow>
          if users_id_seq db + 1 > 2147483647
          then (Inl (DriverError ''nextval: reached maximum value of sequence''), db)
          else
            let db1 = db\<lparr>users_id_seq := users_id_seq db + 1\<rparr>;
                r = \<lparr>col_id = users_id_seq db + 1,
                     col_email = ins_Email p,
                     col_username = ins_Username p,
                     col_password_hash = ins_PasswordHash p,
                     col_first_name = NullString_Value (ins_FirstName p),
                     col_last_name = NullString_Value (ins_LastName p),
                     col_is_active = True,
                     col_created_at = now db,
                     col_updated_at = now db\<rparr>
            in if unique_ok (users db @ [r])
               then (Inr (scan_User r), db1\<lparr>users := users db @ [r]\<rparr>)
               else (Inl (DriverError ''duplicate key value violates unique constraint''), db1))"

text \<open>\<open>GetUserByID :one\<close> and \<open>GetUserByEmail :one\<close>: SELECT ... LIMIT 1.\<close>

definition sql_GetUserByID :: "database \<Rightarrow> int \<Rightarrow> error + User" where
  "sql_GetUserByID db i =
     (case fault db of
        Some m \<Rightarrow> Inl (DriverError m)
      | None \<Rightarrow>
          (case find (\<lambda>r. col_id r = i) (users db) of
             None \<Rightarrow> Inl ErrNoRows
           | Some r \<Rightarrow> Inr (scan_User r)))"

definition sql_GetUserByEmail :: "database \<Rightarrow> string \<Rightarrow> error + User" where
  "sql_GetUserByEmail db e =
     (case fault db of
        Some m \<Rightarrow> Inl (DriverError m)
      | None \<Rightarrow>
          (case find (\<lambda>r. col_email r = e) (users db) of
             None \<Rightarrow> Inl ErrNoRows
           | Some r \<Rightarrow> Inr (scan_User r)))"

text \<open>
  \<open>ListUsers :many\<close>: ORDER BY created_at DESC LIMIT $1 OFFSET $2. Rows created at the same
  instant keep their table order (the server may return them in any order). The server
  rejects a negative OFFSET or LIMIT.
\<close>

definition order_by_created_at_desc :: "users_row list \<Rightarrow> users_row list" where
  "order_by_created_at_desc rows = sort_key (\<lambda>r. - col_created_at r) rows"

definition sql_ListUsers :: "database \<Rightarrow> ListUsersParams \<Rightarrow> error + User list" where
  "sql_ListUsers db p =
     (case fault db of
        Some m \<Rightarrow> Inl (DriverError m)
      | None \<Rightarrow>
          if Offset p < 0 then Inl (DriverError ''OFFSET must not be negative'')
          else if Limit p < 0 then Inl (DriverError ''LIMIT must not be negative'')
          else Inr (map scan_User
                 (take (nat (Limit p)) (drop (nat (Offset p))
                    (order_by_created_at_desc (users db))))))"

text \<open>\<open>CountUsers :one\<close>: SELECT COUNT(*), an int64.\<close>

definition sql_CountUsers :: "database \<Rightarrow> error + int" where
  "sql_CountUsers db =
     (case fault db of
        Some m \<Rightarrow> Inl (DriverError m)
      | None \<Rightarrow> Inr (int (length (users db))))"

text \<open>
  \<open>UpdateUser :one\<close>: every column is set to COALESCE(parameter, column), \<open>updated_at\<close> to
  CURRENT_TIMESTAMP, in the rows WHERE id = $1; RETURNING * gives the updated rows, of which
  \<open>:one\<close> scans the first, or \<open>sql.ErrNoRows\<close> when there is none.
\<close>

definition COALESCE :: "'a option \<Rightarrow> 'a \<Rightarrow> 'a" where
  "COALESCE v old = (case v of None \<Rightarrow> old | Some x \<Rightarrow> x)"

definition COALESCE_null :: "'a option \<Rightarrow> 'a option \<Rightarrow> 'a option" where
  "COALESCE_null v old = (case v of None \<Rightarrow> old | Some x \<Rightarrow> Some x)"

definition update_row :: "UpdateUserParams \<Rightarrow> time \<Rightarrow> users_row \<Rightarrow> users_row" where
  "update_row p t r =
     r\<lparr>col_email := COALESCE (NullString_Value (par_Email p)) (col_email r),
       col_username := COALESCE (NullString_Value (par_Username p)) (col_username r),
       col_first_name := COALESCE_null (NullString_Value (par_FirstName p)) (col_first_name r),
       col_last_name := COALESCE_null (NullString_Value (par_LastName p)) (col_last_name r),
       col_is_active := COALESCE (NullBool_Value (par_IsActive p)) (col_is_active r),
       col_updated_at := t\<rparr>"

definition sql_UpdateUser :: "database \<Rightarrow> UpdateUserParams \<Rightarrow> (error + User) \<times> database" where
  "sql_UpdateUser db p =
     (case fault db of
        Some m \<Rightarrow> (Inl (DriverError m), db)
      | None \<Rightarrow>
          (case find (\<lambda>r. col_id r = par_ID p) (users db) of
             None \<Rightarrow> (Inl ErrNoRows, db)
           | Some r \<Rightarrow>
               let rows = map (\<lambda>x. if col_id x = par_ID p then update_row p (now db) x else x)
                            (users db)
               in if unique_ok rows
                  then (Inr (scan_User (update_row p (now db) r)), db\<lparr>users := rows\<rparr>)
                  else (Inl (DriverError ''duplicate key value violates unique constraint''),
                        db)))"

text \<open>
  \<open>DeleteUser :exec\<close>: DELETE ... WHERE id = $1. \<open>:exec\<close> returns only the error of the
  statement; a DELETE that matches no row is not an error.
\<close>

definition sql_DeleteUser :: "database \<Rightarrow> int \<Rightarrow> error option \<times> database" where
  "sql_DeleteUser db i =
     (case fault db of
        Some m \<Rightarrow> (Some (DriverError m), db)
      | None \<Rightarrow> (None, db\<lparr>users := filter (\<lambda>r. col_id r \<noteq> i) (users db)\<rparr>))"

section \<open>Models: requests and responses\<close>

record CreateUserRequest =
  req_Email :: string
  req_Username :: string
  req_Password :: string
  req_FirstName :: string
  req_LastName :: string

text \<open>The fields of \<open>UpdateUserRequest\<close> are pointers: \<open>None\<close> is \<open>nil\<close>.\<close>

record UpdateUserRequest =
  upd_Email :: "string option"
  upd_Username :: "string option"
  upd_FirstName :: "string option"
  upd_LastName :: "string option"
  upd_IsActive :: "bool option"

text \<open>
  \<open>UserResponse\<close>. \<open>FirstName\<close> and \<open>LastName\<close> are \<open>*string\<close>: \<open>None\<close> is \<open>nil\<close>,
  \<open>Some s\<close> a pointer to a variable that holds \<open>s\<close> when the response is encoded.
\<close>

record UserResponse =
  resp_ID :: int
  resp_Email :: string
  resp_Username :: string
  resp_FirstName :: "string option"
  resp_LastName :: "string option"
  resp_IsActive :: bool
  resp_CreatedAt :: time
  resp_UpdatedAt :: time

record ListUsersRequest =
  Page :: int
  PageSize :: int

record ListUsersResponse =
  Users :: "UserResponse list"
  TotalCount :: int
  resp_Page :: int
  resp_PageSize :: int
  TotalPages :: int

text \<open>
  The \<open>Error\<close> text of an \<open>ErrorResponse\<close>: one of the three fixed messages of the handlers
  (invalid JSON, invalid user id, invalid query parameters) or \<open>err.Error()\<close>.
\<close>

datatype message = InvalidJSON | InvalidUserID | InvalidQueryParams | ErrorText error

record ErrorResponse =
  Error :: message
  Code :: string

text \<open>The JSON object the encoder writes for a \<open>UserResponse\<close>, from its struct tags.\<close>

datatype json = JNumber int | JString string | JBool bool | JTime time

definition UserResponse_JSON :: "UserResponse \<Rightarrow> (string \<times> json) list" where
  "UserResponse_JSON r =
     [(''id'', JNumber (resp_ID r)),
      (''email'', JString (resp_Email r)),
      (''username'', JString (resp_Username r))]
     @ (case resp_FirstName r of None \<Rightarrow> [] | Some s \<Rightarrow> [(''first_name'', JString s)])
     @ (case resp_LastName r of None \<Rightarrow> [] | Some s \<Rightarrow> [(''last_name'', JString s)])
     @ [(''is_active'', JBool (resp_IsActive r)),
        (''created_at'', JTime (resp_CreatedAt r)),
        (''updated_at'', JTime (resp_UpdatedAt r))]"

section \<open>Service\<close>

definition toUserResponse :: "User \<Rightarrow> UserResponse" where
  "toUserResponse user =
     (let resp = \<lparr>resp_ID = ID user, resp_Email = Email user, resp_Username = Username user,
                  resp_FirstName = None, resp_LastName = None,
                  resp_IsActive = IsActive user,
                  resp_CreatedAt = CreatedAt user, resp_UpdatedAt = UpdatedAt user\<rparr>;
          resp = (if Valid (FirstName user)
                  then resp\<lparr>resp_FirstName := Some (String (FirstName user))\<rparr> else resp);
          resp = (if Valid (LastName user)
                  then resp\<lparr>resp_LastName := Some (String (LastName user))\<rparr> else resp)
      in resp)"

text \<open>
  \<open>CreateUser\<close>. \<open>generate\<close> is \<open>bcrypt.GenerateFromPassword\<close> at the default cost: the
  hash, or the error of the package.
\<close>

definition CreateUser ::
  "(string \<Rightarrow> error + string) \<Rightarrow> database \<Rightarrow> CreateUserRequest
     \<Rightarrow> (error + UserResponse) \<times> database" where
  "CreateUser generate db req =
     (case generate (req_Password req) of
        Inl err \<Rightarrow> (Inl (ErrHashing err), db)
      | Inr passwordHash \<Rightarrow>
          (case sql_CreateUser db
                  \<lparr>ins_Email = req_Email req,
                   ins_Username = req_Username req,
                   ins_PasswordHash = passwordHash,
                   ins_FirstName =
                     \<lparr>String = req_FirstName req, Valid = (req_FirstName req \<noteq> [])\<rparr>,
                   ins_LastName =
                     \<lparr>String = req_LastName req, Valid = (req_LastName req \<noteq> [])\<rparr>\<rparr> of
             (Inl err, db') \<Rightarrow> (Inl (ErrCreate err), db')
           | (Inr user, db') \<Rightarrow> (Inr (toUserResponse user), db')))"

definition GetUserByID :: "database \<Rightarrow> int \<Rightarrow> error + UserResponse" where
  "GetUserByID db i =
     (case sql_GetUserByID db (int32 i) of
        Inl err \<Rightarrow> if err = ErrNoRows then Inl ErrUserNotFound else Inl (ErrGet err)
      | Inr user \<Rightarrow> Inr (toUserResponse user))"

text \<open>
  The loop of \<open>ListUsers\<close>, \<open>for i, user := range users\<close>, passes \<open>&user\<close> to
  \<open>toUserResponse\<close>, which stores \<open>&user.FirstName.String\<close> and \<open>&user.LastName.String\<close>
  in the response. The image is built with Go 1.21, where \<open>user\<close> is one variable for the
  whole loop: every non-nil name pointer of the page refers to it, and after the loop it
  holds the last row. \<open>range_toUserResponse\<close> is the page as the encoder then reads it.
\<close>

definition range_toUserResponse :: "User list \<Rightarrow> UserResponse list" where
  "range_toUserResponse us =
     map (\<lambda>user.
            (toUserResponse user)
              \<lparr>resp_FirstName :=
                 (if Valid (FirstName user) then Some (String (FirstName (last us))) else None),
               resp_LastName :=
                 (if Valid (LastName user) then Some (String (LastName (last us))) else None)\<rparr>)
         us"

text \<open>A call either panics (integer division by zero) or returns.\<close>

datatype 'a outcome = Panics | Returns 'a

text \<open>Step 1 of \<open>ListUsers\<close>: \<open>offset := (req.Page - 1) * req.PageSize\<close>, in \<open>int\<close>.\<close>

definition ListUsers_offset :: "ListUsersRequest \<Rightarrow> int" where
  "ListUsers_offset req = int_mul (int_sub (Page req) 1) (PageSize req)"

definition ListUsers :: "database \<Rightarrow> ListUsersRequest \<Rightarrow> (error + ListUsersResponse) outcome" where
  "ListUsers db req =
     (let offset = ListUsers_offset req
      in case sql_ListUsers db \<lparr>Limit = int32 (PageSize req), Offset = int32 offset\<rparr> of
           Inl err \<Rightarrow> Returns (Inl (ErrList err))
         | Inr us \<Rightarrow>
             (case sql_CountUsers db of
                Inl err \<Rightarrow> Returns (Inl (ErrCount err))
              | Inr totalCount \<Rightarrow>
                  let userResponses = range_toUserResponse us
                  in if PageSize req = 0 then Panics
                     else
                       let totalPages = int_quo totalCount (PageSize req);
                           totalPages = (if int_rem totalCount (PageSize req) \<noteq> 0
                                         then int_inc totalPages else totalPages)
                       in Returns (Inr \<lparr>Users = userResponses,
                                         TotalCount = totalCount,
                                         resp_Page = Page req,
                                         resp_PageSize = PageSize req,
                                         TotalPages = totalPages\<rparr>)))"


text \<open>
  The parameters \<open>UpdateUser\<close> builds for the statement: the id, and for each field of
  the request either the zero value (pointer \<open>nil\<close>) or the value with \<open>Valid = true\<close>.
\<close>

definition UpdateUser_params :: "int \<Rightarrow> UpdateUserRequest \<Rightarrow> UpdateUserParams" where
  "UpdateUser_params i req =
     (let params = \<lparr>par_ID = int32 i, par_Email = NullString_zero,
                    par_Username = NullString_zero, par_FirstName = NullString_zero,
                    par_LastName = NullString_zero, par_IsActive = NullBool_zero\<rparr>;
          params = (case upd_Email req of None \<Rightarrow> params
                    | Some v \<Rightarrow> params\<lparr>par_Email := \<lparr>String = v, Valid = True\<rparr>\<rparr>);
          params = (case upd_Username req of None \<Rightarrow> params
                    | Some v \<Rightarrow> params\<lparr>par_Username := \<lparr>String = v, Valid = True\<rparr>\<rparr>);
          params = (case upd_FirstName req of None \<Rightarrow> params
                    | Some v \<Rightarrow> params\<lparr>par_FirstName := \<lparr>String = v, Valid = True\<rparr>\<rparr>);
          params = (case upd_LastName req of None \<Rightarrow> params
                    | Some v \<Rightarrow> params\<lparr>par_LastName := \<lparr>String = v, Valid = True\<rparr>\<rparr>);
          params = (case upd_IsActive req of None \<Rightarrow> params
                    | Some v \<Rightarrow> params\<lparr>par_IsActive := \<lparr>Bool = v, BValid = True\<rparr>\<rparr>)
      in params)"

definition UpdateUser ::
  "database \<Rightarrow> int \<Rightarrow> UpdateUserRequest \<Rightarrow> (error + UserResponse) \<times> database" where
  "UpdateUser db i req =
     (case sql_UpdateUser db (UpdateUser_params i req) of
        (Inl err, db') \<Rightarrow>
          (if err = ErrNoRows then Inl ErrUserNotFound else Inl (ErrUpdate err), db')
      | (Inr user, db') \<Rightarrow> (Inr (toUserResponse user), db'))"

definition DeleteUser :: "database \<Rightarrow> int \<Rightarrow> error option \<times> database" where
  "DeleteUser db i =
     (case sql_DeleteUser db (int32 i) of
        (Some err, db') \<Rightarrow> (Some (ErrDelete err), db')
      | (None, db') \<Rightarrow> (None, db'))"

text \<open>
  \<open>VerifyPassword\<close>. \<open>compare hash password\<close> holds when
  \<open>bcrypt.CompareHashAndPassword\<close> returns no error.
\<close>

definition VerifyPassword ::
  "(string \<Rightarrow> string \<Rightarrow> bool) \<Rightarrow> database \<Rightarrow> string \<Rightarrow> string \<Rightarrow> error + UserResponse" where
  "VerifyPassword compare db email password =
     (case sql_GetUserByEmail db email of
        Inl err \<Rightarrow> if err = ErrNoRows then Inl ErrBadCredentials else Inl (ErrVerify err)
      | Inr user \<Rightarrow>
          if \<not> compare (PasswordHash user) password then Inl ErrBadCredentials
          else Inr (toUserResponse user))"

section \<open>Handlers\<close>

datatype body =
    ErrorJSON ErrorResponse
  | UserJSON UserResponse
  | ListJSON ListUsersResponse
  | RecoveredPanic
  | NoBody

record response =
  status :: nat
  body :: body

text \<open>
  \<open>strconv.Atoi\<close>: an optional sign, then decimal digits only, at least one, and a value in
  the range of \<open>int\<close>.
\<close>

definition is_digit :: "char \<Rightarrow> bool" where
  "is_digit c \<longleftrightarrow> 48 \<le> (of_char c :: nat) \<and> (of_char c :: nat) \<le> 57"

definition digits_value :: "string \<Rightarrow> int" where
  "digits_value ds = foldl (\<lambda>n c. n * 10 + (int (of_char c) - 48)) 0 ds"

definition Atoi :: "string \<Rightarrow> int option" where
  "Atoi s =
     (let neg = (case s of [] \<Rightarrow> False | c # cs \<Rightarrow> c = CHR ''-'');
          ds = (case s of [] \<Rightarrow> []
                | c # cs \<Rightarrow> if c = CHR ''-'' \<or> c = CHR ''+'' then cs else s)
      in if ds = [] \<or> \<not> list_all is_digit ds then None
         else
           let n = (if neg then - digits_value ds else digits_value ds)
           in if - (2 ^ 63) \<le> n \<and> n < 2 ^ 63 then Some n else None)"

definition UserHandler_GetUser :: "database \<Rightarrow> string \<Rightarrow> response" where
  "UserHandler_GetUser db idStr =
     (case Atoi idStr of
        None \<Rightarrow> \<lparr>status = 400,
                 body = ErrorJSON \<lparr>Error = InvalidUserID, Code = ''INVALID_USER_ID''\<rparr>\<rparr>
      | Some i \<Rightarrow>
          (case GetUserByID db i of
             Inl err \<Rightarrow> \<lparr>status = 404,
                          body = ErrorJSON \<lparr>Error = ErrorText err, Code = ''USER_NOT_FOUND''\<rparr>\<rparr>
           | Inr user \<Rightarrow> \<lparr>status = 200, body = UserJSON user\<rparr>))"

text \<open>
  The query string as \<open>QueryParser\<close> decodes it: undecodable, or the integers it carries
  for \<open>page\<close> and \<open>page_size\<close>, if any. A field whose key is absent keeps the value the
  handler put there before the call.
\<close>

datatype query = BadQuery | Query "int option" "int option"

fun QueryParser :: "query \<Rightarrow> ListUsersRequest \<Rightarrow> ListUsersRequest option" where
  "QueryParser BadQuery req = None"
| "QueryParser (Query p ps) req =
     Some (req\<lparr>Page := (case p of None \<Rightarrow> Page req | Some v \<Rightarrow> v),
               PageSize := (case ps of None \<Rightarrow> PageSize req | Some v \<Rightarrow> v)\<rparr>)"

text \<open>Step 2 of the handler: the two guards on the decoded request.\<close>

definition validate_ListUsers :: "ListUsersRequest \<Rightarrow> ListUsersRequest" where
  "validate_ListUsers req =
     (let req = (if Page req < 1 then req\<lparr>Page := 1\<rparr> else req);
          req = (if PageSize req < 1 \<or> PageSize req > 100 then req\<lparr>PageSize := 10\<rparr> else req)
      in req)"

text \<open>The request the handler passes to the service, when it gets that far.\<close>

definition ListUsers_request :: "query \<Rightarrow> ListUsersRequest option" where
  "ListUsers_request q =
     (case QueryParser q \<lparr>Page = 1, PageSize = 10\<rparr> of
        None \<Rightarrow> None
      | Some req \<Rightarrow> Some (validate_ListUsers req))"

text \<open>
  A panic of the service is caught by the recover middleware and answered by the
  application's error handler with status 500.
\<close>

definition UserHandler_ListUsers :: "database \<Rightarrow> query \<Rightarrow> response" where
  "UserHandler_ListUsers db q =
     (case ListUsers_request q of
        None \<Rightarrow> \<lparr>status = 400,
                 body = ErrorJSON \<lparr>Error = InvalidQueryParams, Code = ''INVALID_QUERY_PARAMS''\<rparr>\<rparr>
      | Some req \<Rightarrow>
          (case ListUsers db req of
             Panics \<Rightarrow> \<lparr>status = 500, body = RecoveredPanic\<rparr>
           | Returns (Inl err) \<Rightarrow>
               \<lparr>status = 500,
                body = ErrorJSON \<lparr>Error = ErrorText err, Code = ''LIST_USERS_ERROR''\<rparr>\<rparr>
           | Returns (Inr resp) \<Rightarrow> \<lparr>status = 200, body = ListJSON resp\<rparr>))"

text \<open>The body argument is what \<open>BodyParser\<close> decodes: \<open>None\<close> when it returns an error.\<close>

definition UserHandler_UpdateUser ::
  "database \<Rightarrow> string \<Rightarrow> UpdateUserRequest option \<Rightarrow> response \<times> database" where
  "UserHandler_UpdateUser db idStr parsed =
     (case Atoi idStr of
        None \<Rightarrow> (\<lparr>status = 400,
                  body = ErrorJSON \<lparr>Error = InvalidUserID, Code = ''INVALID_USER_ID''\<rparr>\<rparr>, db)
      | Some i \<Rightarrow>
          (case parsed of
             None \<Rightarrow> (\<lparr>status = 400,
                       body = ErrorJSON \<lparr>Error = InvalidJSON, Code = ''INVALID_JSON''\<rparr>\<rparr>, db)
           | Some req \<Rightarrow>
               (case UpdateUser db i req of
                  (Inl err, db') \<Rightarrow>
                    (\<lparr>status = 500,
                      body = ErrorJSON \<lparr>Error = ErrorText err, Code = ''UPDATE_USER_ERROR''\<rparr>\<rparr>,
                     db')
                | (Inr user, db') \<Rightarrow> (\<lparr>status = 200, body = UserJSON user\<rparr>, db'))))"

definition UserHandler_DeleteUser :: "database \<Rightarrow> string \<Rightarrow> response \<times> database" where
  "UserHandler_DeleteUser db idStr =
     (case Atoi idStr of
        None \<Rightarrow> (\<lparr>status = 400,
                  body = ErrorJSON \<lparr>Error = InvalidUserID, Code = ''INVALID_USER_ID''\<rparr>\<rparr>, db)
      | Some i \<Rightarrow>
          (case DeleteUser db i of
             (Some err, db') \<Rightarrow>
               (\<lparr>status = 500,
                 body = ErrorJSON \<lparr>Error = ErrorText err, Code = ''DELETE_USER_ERROR''\<rparr>\<rparr>,
                db')
           | (None, db') \<Rightarrow> (\<lparr>status = 204, body = NoBody\<rparr>, db')))"

section \<open>Example data\<close>

definition ann :: users_row where
  "ann = \<lparr>col_id = 1, col_email = ''a@x.com'', col_username = ''ann'',
          col_password_hash = ''h1'', col_first_name = Some ''Ann'', col_last_name = None,
          col_is_active = True, col_created_at = 5, col_updated_at = 5\<rparr>"

definition bob :: users_row where
  "bob = \<lparr>col_id = 2, col_email = ''b@x.com'', col_username = ''bob'',
          col_password_hash = ''h2'', col_first_name = None, col_last_name = Some ''B'',
          col_is_active = True, col_created_at = 7, col_updated_at = 7\<rparr>"

definition two_users :: database where
  "two_users = \<lparr>users = [ann, bob], users_id_seq = 2, now = 9, fault = None\<rparr>"

definition clear_first_name :: UpdateUserRequest where
  "clear_first_name = \<lparr>upd_Email = None, upd_Username = None, upd_FirstName = Some [],
      upd_LastName = None, upd_IsActive = None\<rparr>"

definition empty_first_name :: CreateUserRequest where
  "empty_first_name = \<lparr>req_Email = ''c@x.com'', req_Username = ''cat'',
      req_Password = ''longenough'', req_FirstName = [], req_LastName = ''Lee''\<rparr>"



text \<open>Stand-ins for the two bcrypt functions in the examples.\<close>

definition plain_generate :: "string \<Rightarrow> error + string" where
  "plain_generate password = Inr (''h'' @ password)"


definition plain_compare :: "string \<Rightarrow> string \<Rightarrow> bool" where
  "plain_compare hash password \<longleftrightarrow> hash = ''h'' @ password"

section \<open>Basic facts\<close>

lemma Atoi_1: "Atoi ''1'' = Some 1"
  by (simp add: Atoi_def is_digit_def digits_value_def)

lemma Atoi_3: "Atoi ''3'' = Some 3"
  by (simp add: Atoi_def is_digit_def digits_value_def)

lemma Atoi_big: "Atoi ''4294967297'' = Some 4294967297"
  by (simp add: Atoi_def is_digit_def digits_value_def)

lemma Atoi_big2: "Atoi ''4294967298'' = Some 4294967298"
  by (simp add: Atoi_def is_digit_def digits_value_def)

lemma toUserResponse_scan_User:
  "toUserResponse (scan_User r) =
     \<lparr>resp_ID = col_id r, resp_Email = col_email r, resp_Username = col_username r,
      resp_FirstName = col_first_name r, resp_LastName = col_last_name r,
      resp_IsActive = col_is_active r,
      resp_CreatedAt = col_created_at r, resp_UpdatedAt = col_updated_at r\<rparr>"
  by (simp add: toUserResponse_def scan_User_def NullString_Scan_def Let_def
        split: option.splits)

lemma int32_id: "- (2 ^ 31) \<le> x \<Longrightarrow> x < 2 ^ 31 \<Longrightarrow> int32 x = x"
  unfolding int32_def by (rule signed_take_bit_int_eq_self) simp_all


lemma find_None_Ball: "(find P xs = None) = (\<forall>x\<in>set xs. \<not> P x)"
  by (auto simp: find_None_iff)

lemma find_distinct_key:
  assumes "distinct (map g xs)" and "find (\<lambda>r. g r = a) xs = Some r"
    and "k < length xs" and "g (xs ! k) = a"
  shows "r = xs ! k"
proof -
  from assms(2) obtain j where j: "j < length xs" "g (xs ! j) = a" "r = xs ! j"
    by (auto simp: find_Some_iff)
  have "map g xs ! j = map g xs ! k"
    using j assms(3,4) by simp
  then have "j = k"
    using nth_eq_iff_index_eq [of "map g xs" j k] assms(1,3) j(1) by simp
  then show ?thesis using j(3) by simp
qed

lemma find_snoc_new:
  assumes "\<forall>x\<in>set xs. \<not> P x" and "P y"
  shows "find P (xs @ [y]) = Some y"
  using assms by (induction xs) simp_all

lemma params_values:
  "NullString_Value (par_Email (UpdateUser_params i req)) = upd_Email req"
  "NullString_Value (par_Username (UpdateUser_params i req)) = upd_Username req"
  "NullString_Value (par_FirstName (UpdateUser_params i req)) = upd_FirstName req"
  "NullString_Value (par_LastName (UpdateUser_params i req)) = upd_LastName req"
  "NullBool_Value (par_IsActive (UpdateUser_params i req)) = upd_IsActive req"
  "par_ID (UpdateUser_params i req) = int32 i"
  by (simp_all add: UpdateUser_params_def Let_def NullString_Value_def NullBool_Value_def
        NullString_zero_def NullBool_zero_def split: option.splits)

lemma update_row_fields:
  "col_id (update_row p t r) = col_id r"
  "col_email (update_row p t r) = COALESCE (NullString_Value (par_Email p)) (col_email r)"
  "col_username (update_row p t r) = COALESCE (NullString_Value (par_Username p)) (col_username r)"
  "col_first_name (update_row p t r) =
     COALESCE_null (NullString_Value (par_FirstName p)) (col_first_name r)"
  "col_last_name (update_row p t r) =
     COALESCE_null (NullString_Value (par_LastName p)) (col_last_name r)"
  "col_is_active (update_row p t r) = COALESCE (NullBool_Value (par_IsActive p)) (col_is_active r)"
  by (simp_all add: update_row_def)

section \<open>The wire representation carries no password data\<close>

lemma UserResponse_JSON_keys:
  "map fst (UserResponse_JSON r) =
     [''id'', ''email'', ''username'']
     @ (case resp_FirstName r of None \<Rightarrow> [] | Some s \<Rightarrow> [''first_name''])
     @ (case resp_LastName r of None \<Rightarrow> [] | Some s \<Rightarrow> [''last_name''])
     @ [''is_active'', ''created_at'', ''updated_at'']"
  by (simp add: UserResponse_JSON_def split: option.splits)

text \<open>
  C2. For every storage row, the response built by \<open>toUserResponse\<close> does not depend on the
  row's password hash (replacing the hash by any other value gives the same response), nor
  does the page built by the loop of ListUsers, and the JSON object encoded from a response
  has no key \<open>password_hash\<close> or \<open>password\<close>.
\<close>

theorem toUserResponse_hides_password_hash:
  "toUserResponse (user\<lparr>PasswordHash := h\<rparr>) = toUserResponse user
   \<and> range_toUserResponse (map (\<lambda>u. u\<lparr>PasswordHash := f u\<rparr>) us) = range_toUserResponse us
   \<and> ''password_hash'' \<notin> set (map fst (UserResponse_JSON (toUserResponse user)))
   \<and> ''password'' \<notin> set (map fst (UserResponse_JSON (toUserResponse user)))"
proof -
  have one: "toUserResponse (u\<lparr>PasswordHash := h\<rparr>) = toUserResponse u" for u h
    by (simp add: toUserResponse_def Let_def)
  have "range_toUserResponse (map (\<lambda>u. u\<lparr>PasswordHash := f u\<rparr>) us) = range_toUserResponse us"
  proof (cases "us = []")
    case True
    then show ?thesis by (simp add: range_toUserResponse_def)
  next
    case False
    then show ?thesis
      by (simp add: range_toUserResponse_def last_map one comp_def)
  qed
  moreover have "''password_hash'' \<notin> set (map fst (UserResponse_JSON r))"
    and "''password'' \<notin> set (map fst (UserResponse_JSON r))" for r
    unfolding UserResponse_JSON_keys by (simp_all split: option.splits)
  ultimately show ?thesis using one by blast
qed

theorem toUserResponse_hides_password_hash_witness:
  "toUserResponse ((scan_User ann)\<lparr>PasswordHash := ''other''\<rparr>) = toUserResponse (scan_User ann)
   \<and> range_toUserResponse [(scan_User ann)\<lparr>PasswordHash := ''x''\<rparr>,
                            (scan_User bob)\<lparr>PasswordHash := ''x''\<rparr>]
       = range_toUserResponse [scan_User ann, scan_User bob]
   \<and> ''password_hash'' \<notin> set (map fst (UserResponse_JSON (toUserResponse (scan_User ann))))
   \<and> ''password'' \<notin> set (map fst (UserResponse_JSON (toUserResponse (scan_User ann))))"
  using toUserResponse_hides_password_hash
    [where user = "scan_User ann" and h = "''other''" and f = "\<lambda>u. ''x''"
       and us = "[scan_User ann, scan_User bob]"]
  by simp

section \<open>The List handler: defaults and guards\<close>

text \<open>
  C3, as the claim states it, fails: a \<open>page_size\<close> of 150 reaches the service as 10, not
  100, and a \<open>page_size\<close> of 0 reaches it as 10, not 1.
\<close>

theorem page_size_not_clamped:
  "map_option PageSize (ListUsers_request (Query None (Some 150))) = Some 10
   \<and> map_option PageSize (ListUsers_request (Query None (Some 150))) \<noteq> Some 100
   \<and> map_option PageSize (ListUsers_request (Query None (Some 0))) = Some 10
   \<and> map_option PageSize (ListUsers_request (Query None (Some 0))) \<noteq> Some 1"
  by (simp add: ListUsers_request_def validate_ListUsers_def)

text \<open>
  C3, amended. A query that cannot be decoded is answered with 400. Otherwise the service is
  called with: \<open>page\<close> 1 when absent or below 1, else the value supplied; \<open>page_size\<close> 10
  when absent, below 1 or above 100, else the value supplied.
\<close>

theorem ListUsers_request_validated:
  "ListUsers_request BadQuery = None
   \<and> status (UserHandler_ListUsers db BadQuery) = 400
   \<and> ListUsers_request (Query p ps) =
       Some \<lparr>Page = (case p of None \<Rightarrow> 1 | Some v \<Rightarrow> if v < 1 then 1 else v),
             PageSize = (case ps of None \<Rightarrow> 10
                         | Some v \<Rightarrow> if v < 1 \<or> v > 100 then 10 else v)\<rparr>"
  by (simp add: ListUsers_request_def validate_ListUsers_def UserHandler_ListUsers_def Let_def
           split: option.splits)

theorem ListUsers_request_validated_witness:
  "ListUsers_request BadQuery = None
   \<and> status (UserHandler_ListUsers two_users BadQuery) = 400
   \<and> ListUsers_request (Query (Some 0) (Some 20)) = Some \<lparr>Page = 1, PageSize = 20\<rparr>"
  using ListUsers_request_validated [where db = two_users and p = "Some 0" and ps = "Some 20"]
  by simp

section \<open>Delete\<close>

text \<open>
  C7, as the claim states it, fails: deleting id 3 from a table that holds ids 1 and 2
  returns no error, and the handler answers 204. (An id outside \<open>int32\<close> is converted to
  its low 32 bits: no row has id 4294967298, yet the row of id 2 is deleted.)
\<close>

theorem DeleteUser_absent_id_no_error:
  "map col_id (users two_users) = [1, 2]
   \<and> DeleteUser two_users 3 = (None, two_users)
   \<and> UserHandler_DeleteUser two_users ''3'' = (\<lparr>status = 204, body = NoBody\<rparr>, two_users)
   \<and> UserHandler_DeleteUser two_users ''4294967298'' =
       (\<lparr>status = 204, body = NoBody\<rparr>, two_users\<lparr>users := [ann]\<rparr>)"
  by (simp add: UserHandler_DeleteUser_def Atoi_3 Atoi_big2 DeleteUser_def sql_DeleteUser_def
        int32_def two_users_def ann_def bob_def)

text \<open>
  C7, amended. While the storage answers, DeleteUser on an id in the range of \<open>int32\<close> that
  matches no row returns no error and leaves the table as it was, and the handler answers 204
  with an empty body.
\<close>

theorem DeleteUser_absent_id_succeeds:
  assumes "fault db = None" and "Atoi idStr = Some i"
    and "- (2 ^ 31) \<le> i" and "i < 2 ^ 31"
    and "\<forall>r\<in>set (users db). col_id r \<noteq> i"
  shows "DeleteUser db i = (None, db)
         \<and> UserHandler_DeleteUser db idStr = (\<lparr>status = 204, body = NoBody\<rparr>, db)"
proof -
  have "int32 i = i" using assms(3,4) by (rule int32_id)
  then have "filter (\<lambda>r. col_id r \<noteq> int32 i) (users db) = users db"
    using assms(5) by (simp add: filter_id_conv)
  then have "DeleteUser db i = (None, db)"
    using assms(1) by (simp add: DeleteUser_def sql_DeleteUser_def)
  then show ?thesis
    using assms(2) by (simp add: UserHandler_DeleteUser_def)
qed

theorem DeleteUser_absent_id_succeeds_witness:
  "DeleteUser two_users 3 = (None, two_users)
   \<and> UserHandler_DeleteUser two_users ''3'' = (\<lparr>status = 204, body = NoBody\<rparr>, two_users)"
  using DeleteUser_absent_id_succeeds [of two_users "''3''" 3]
  by (simp add: Atoi_3 two_users_def ann_def bob_def)

section \<open>Update of an unknown id\<close>

text \<open>
  For a path id in the range of \<open>int32\<close> that no row has, UpdateUser returns the "user not
  found" error and leaves the storage as it was, and the handler answers 500 with code
  UPDATE_USER_ERROR; the handler answers every error of UpdateUser in that way.
\<close>

lemma UpdateUser_no_row_is_500:
  assumes "Atoi idStr = Some i" and "fault db = None"
    and "- (2 ^ 31) \<le> i" and "i < 2 ^ 31"
    and "\<forall>r\<in>set (users db). col_id r \<noteq> i"
  shows "UpdateUser db i req = (Inl ErrUserNotFound, db)
         \<and> UserHandler_UpdateUser db idStr (Some req) =
              (\<lparr>status = 500,
                body = ErrorJSON \<lparr>Error = ErrorText ErrUserNotFound,
                                  Code = ''UPDATE_USER_ERROR''\<rparr>\<rparr>, db)"
proof -
  have "int32 i = i" using assms(3,4) by (rule int32_id)
  then have "find (\<lambda>r. col_id r = int32 i) (users db) = None"
    using assms(5) by (simp add: find_None_Ball)
  then have "UpdateUser db i req = (Inl ErrUserNotFound, db)"
    using assms(2) by (simp add: UpdateUser_def sql_UpdateUser_def params_values)
  then show ?thesis
    using assms(1) by (simp add: UserHandler_UpdateUser_def)
qed

lemma UpdateUser_error_is_500:
  assumes "Atoi idStr = Some i" and "UpdateUser db i req = (Inl err, db')"
  shows "UserHandler_UpdateUser db idStr (Some req) =
           (\<lparr>status = 500,
             body = ErrorJSON \<lparr>Error = ErrorText err, Code = ''UPDATE_USER_ERROR''\<rparr>\<rparr>, db')"
  using assms by (simp add: UserHandler_UpdateUser_def)

text \<open>
  C5 says that an update whose target id matches no stored user gets the not-found failure
  and the answer 500 with code UPDATE_USER_ERROR. The id is converted to \<open>int32\<close> before the
  statement runs: no row of the table has id 4294967297, yet the update of that id
  overwrites the first name of the user with id 1, and the handler answers 200 with that user.
\<close>

theorem UpdateUser_truncated_id_updates_user_1:
  "map col_id (users two_users) = [1, 2]
   \<and> Atoi ''4294967297'' = Some 4294967297
   \<and> UpdateUser two_users 4294967297 clear_first_name =
       (Inr \<lparr>resp_ID = 1, resp_Email = ''a@x.com'', resp_Username = ''ann'',
             resp_FirstName = Some [], resp_LastName = None, resp_IsActive = True,
             resp_CreatedAt = 5, resp_UpdatedAt = 9\<rparr>,
        two_users\<lparr>users := [ann\<lparr>col_first_name := Some [], col_updated_at := 9\<rparr>, bob]\<rparr>)
   \<and> UserHandler_UpdateUser two_users ''4294967297'' (Some clear_first_name) =
       (\<lparr>status = 200,
         body = UserJSON \<lparr>resp_ID = 1, resp_Email = ''a@x.com'', resp_Username = ''ann'',
                   resp_FirstName = Some [], resp_LastName = None, resp_IsActive = True,
                   resp_CreatedAt = 5, resp_UpdatedAt = 9\<rparr>\<rparr>,
        two_users\<lparr>users := [ann\<lparr>col_first_name := Some [], col_updated_at := 9\<rparr>, bob]\<rparr>)"
  by (simp add: UserHandler_UpdateUser_def Atoi_big UpdateUser_def sql_UpdateUser_def
        UpdateUser_params_def Let_def int32_def unique_ok_def update_row_def
        toUserResponse_def scan_User_def NullString_Scan_def
        two_users_def ann_def bob_def clear_first_name_def
        NullString_zero_def NullBool_zero_def NullString_Value_def NullBool_Value_def
        COALESCE_def COALESCE_null_def)

section \<open>GetUser\<close>

text \<open>
  What GetUser answers for a path id in the range of \<open>int32\<close>: 200 with the row's wire form
  when a row has the id, and 404 with code USER_NOT_FOUND on every error of the service.
\<close>

lemma GetUser_status:
  assumes "Atoi idStr = Some i" and "- (2 ^ 31) \<le> i" and "i < 2 ^ 31"
  shows "UserHandler_GetUser db idStr =
     (case fault db of
        Some m \<Rightarrow>
          \<lparr>status = 404,
           body = ErrorJSON \<lparr>Error = ErrorText (ErrGet (DriverError m)),
                             Code = ''USER_NOT_FOUND''\<rparr>\<rparr>
      | None \<Rightarrow>
          (case find (\<lambda>r. col_id r = i) (users db) of
             None \<Rightarrow>
               \<lparr>status = 404,
                body = ErrorJSON \<lparr>Error = ErrorText ErrUserNotFound,
                                  Code = ''USER_NOT_FOUND''\<rparr>\<rparr>
           | Some r \<Rightarrow>
               \<lparr>status = 200,
                body = UserJSON
                  \<lparr>resp_ID = col_id r, resp_Email = col_email r,
                   resp_Username = col_username r,
                   resp_FirstName = col_first_name r, resp_LastName = col_last_name r,
                   resp_IsActive = col_is_active r,
                   resp_CreatedAt = col_created_at r, resp_UpdatedAt = col_updated_at r\<rparr>\<rparr>))"
  using assms
  by (simp add: UserHandler_GetUser_def GetUserByID_def sql_GetUserByID_def int32_id
        toUserResponse_scan_User split: option.splits)

text \<open>
  C6 says that GetUser answers 404 exactly when no row matches, and 500 on a storage failure.
  With the storage unavailable and a row of id 1 in the table, the service returns the
  wrapped storage error, not "user not found", and the handler answers 404 with code
  USER_NOT_FOUND.
\<close>

theorem GetUser_404_on_storage_failure:
  "map col_id (users (two_users\<lparr>fault := Some ''connection refused''\<rparr>)) = [1, 2]
   \<and> GetUserByID (two_users\<lparr>fault := Some ''connection refused''\<rparr>) 1 =
       Inl (ErrGet (DriverError ''connection refused''))
   \<and> UserHandler_GetUser (two_users\<lparr>fault := Some ''connection refused''\<rparr>) ''1'' =
       \<lparr>status = 404,
        body = ErrorJSON \<lparr>Error = ErrorText (ErrGet (DriverError ''connection refused'')),
                          Code = ''USER_NOT_FOUND''\<rparr>\<rparr>"
  by (simp add: UserHandler_GetUser_def Atoi_1 GetUserByID_def sql_GetUserByID_def
        int32_def two_users_def ann_def bob_def)

section \<open>VerifyPassword\<close>

text \<open>
  C8. While the storage answers: an email that no row has, and an email whose row has a hash
  that does not match the password, give the same error value; and VerifyPassword returns a
  response exactly when the row found for the email has a hash that matches, the response
  carrying the id, email, username, names, active flag and timestamps of that row.
\<close>

theorem VerifyPassword_no_enumeration:
  assumes "fault db = None"
  shows "((\<forall>r\<in>set (users db). col_email r \<noteq> email)
            \<longrightarrow> VerifyPassword compare db email password = Inl ErrBadCredentials)
         \<and> (\<forall>r. find (\<lambda>r. col_email r = email) (users db) = Some r
                  \<and> \<not> compare (col_password_hash r) password
              \<longrightarrow> VerifyPassword compare db email password = Inl ErrBadCredentials)
         \<and> (\<forall>resp. VerifyPassword compare db email password = Inr resp
              \<longleftrightarrow> (\<exists>r. find (\<lambda>r. col_email r = email) (users db) = Some r
                       \<and> compare (col_password_hash r) password
                       \<and> resp = \<lparr>resp_ID = col_id r, resp_Email = email,
                                  resp_Username = col_username r,
                                  resp_FirstName = col_first_name r,
                                  resp_LastName = col_last_name r,
                                  resp_IsActive = col_is_active r,
                                  resp_CreatedAt = col_created_at r,
                                  resp_UpdatedAt = col_updated_at r\<rparr>))"
proof (intro conjI impI allI)
  assume "\<forall>r\<in>set (users db). col_email r \<noteq> email"
  then have "find (\<lambda>r. col_email r = email) (users db) = None"
    by (simp add: find_None_Ball)
  then show "VerifyPassword compare db email password = Inl ErrBadCredentials"
    using assms by (simp add: VerifyPassword_def sql_GetUserByEmail_def)
next
  fix r
  assume "find (\<lambda>r. col_email r = email) (users db) = Some r
          \<and> \<not> compare (col_password_hash r) password"
  then show "VerifyPassword compare db email password = Inl ErrBadCredentials"
    using assms by (simp add: VerifyPassword_def sql_GetUserByEmail_def scan_User_def)
next
  fix resp
  show "VerifyPassword compare db email password = Inr resp
        \<longleftrightarrow> (\<exists>r. find (\<lambda>r. col_email r = email) (users db) = Some r
                 \<and> compare (col_password_hash r) password
                 \<and> resp = \<lparr>resp_ID = col_id r, resp_Email = email,
                            resp_Username = col_username r,
                            resp_FirstName = col_first_name r,
                            resp_LastName = col_last_name r,
                            resp_IsActive = col_is_active r,
                            resp_CreatedAt = col_created_at r,
                            resp_UpdatedAt = col_updated_at r\<rparr>)"
  proof (cases "find (\<lambda>r. col_email r = email) (users db)")
    case None
    then show ?thesis
      using assms by (simp add: VerifyPassword_def sql_GetUserByEmail_def)
  next
    case (Some r)
    then have e: "col_email r = email" by (auto simp: find_Some_iff)
    have h: "PasswordHash (scan_User r) = col_password_hash r" by (simp add: scan_User_def)
    show ?thesis
      using assms Some e
      by (auto simp: VerifyPassword_def sql_GetUserByEmail_def h toUserResponse_scan_User)
  qed
qed

theorem VerifyPassword_no_enumeration_witness:
  "VerifyPassword plain_compare two_users ''nobody@x.com'' ''1'' = Inl ErrBadCredentials
   \<and> VerifyPassword plain_compare two_users ''a@x.com'' ''2'' = Inl ErrBadCredentials
   \<and> VerifyPassword plain_compare two_users ''a@x.com'' ''1'' =
       Inr \<lparr>resp_ID = 1, resp_Email = ''a@x.com'', resp_Username = ''ann'',
            resp_FirstName = Some ''Ann'', resp_LastName = None, resp_IsActive = True,
            resp_CreatedAt = 5, resp_UpdatedAt = 5\<rparr>"
proof -
  have f: "fault two_users = None" by (simp add: two_users_def)
  have 1: "\<forall>r\<in>set (users two_users). col_email r \<noteq> ''nobody@x.com''"
    by (simp add: two_users_def ann_def bob_def)
  have 2: "find (\<lambda>r. col_email r = ''a@x.com'') (users two_users) = Some ann"
    by (simp add: two_users_def ann_def bob_def)
  have 3: "\<not> plain_compare (col_password_hash ann) ''2''"
    and 4: "plain_compare (col_password_hash ann) ''1''"
    by (simp_all add: plain_compare_def ann_def)
  have 5: "\<lparr>resp_ID = col_id ann, resp_Email = ''a@x.com'', resp_Username = col_username ann,
            resp_FirstName = col_first_name ann, resp_LastName = col_last_name ann,
            resp_IsActive = col_is_active ann, resp_CreatedAt = col_created_at ann,
            resp_UpdatedAt = col_updated_at ann\<rparr>
          = \<lparr>resp_ID = 1, resp_Email = ''a@x.com'', resp_Username = ''ann'',
            resp_FirstName = Some ''Ann'', resp_LastName = None, resp_IsActive = True,
            resp_CreatedAt = 5, resp_UpdatedAt = 5\<rparr>"
    by (simp add: ann_def)
  note t = VerifyPassword_no_enumeration [OF f, of _ plain_compare]
  from t [of "''nobody@x.com''" "''1''"] 1
  have "VerifyPassword plain_compare two_users ''nobody@x.com'' ''1'' = Inl ErrBadCredentials"
    by blast
  moreover from t [of "''a@x.com''" "''2''"] 2 3
  have "VerifyPassword plain_compare two_users ''a@x.com'' ''2'' = Inl ErrBadCredentials"
    by blast
  moreover from t [of "''a@x.com''" "''1''"] 2 4 5
  have "VerifyPassword plain_compare two_users ''a@x.com'' ''1'' =
       Inr \<lparr>resp_ID = 1, resp_Email = ''a@x.com'', resp_Username = ''ann'',
            resp_FirstName = Some ''Ann'', resp_LastName = None, resp_IsActive = True,
            resp_CreatedAt = 5, resp_UpdatedAt = 5\<rparr>"
    by metis
  ultimately show ?thesis by blast
qed

section \<open>Partial update\<close>

lemma sql_UpdateUser_Inr:
  assumes "sql_UpdateUser db p = (Inr user, db')"
  shows "users db' = map (\<lambda>x. if col_id x = par_ID p then update_row p (now db) x else x) (users db)
         \<and> unique_ok (users db')
         \<and> (\<exists>r. find (\<lambda>r. col_id r = par_ID p) (users db) = Some r
                \<and> user = scan_User (update_row p (now db) r))"
  using assms
  by (auto simp: sql_UpdateUser_def Let_def split: option.splits if_splits)

lemma distinct_map_update:
  assumes "distinct (map g xs)" and "distinct (map c xs)"
    and "\<And>x y. x \<in> set xs \<Longrightarrow> y \<in> set xs \<Longrightarrow> g x = a \<Longrightarrow> g y \<noteq> a \<Longrightarrow> c (u x) \<noteq> c y"
  shows "distinct (map c (map (\<lambda>x. if g x = a then u x else x) xs))"
proof -
  let ?f = "\<lambda>x. if g x = a then u x else x"
  have "c (?f (xs ! i)) \<noteq> c (?f (xs ! j))"
    if "i < length xs" and "j < length xs" and "i \<noteq> j" for i j
  proof -
    have gi: "g (xs ! i) \<noteq> g (xs ! j)"
      using nth_eq_iff_index_eq [of "map g xs" i j] assms(1) that by simp
    have ci: "c (xs ! i) \<noteq> c (xs ! j)"
      using nth_eq_iff_index_eq [of "map c xs" i j] assms(2) that by simp
    have mem: "xs ! i \<in> set xs" "xs ! j \<in> set xs"
      using that by simp_all
    show ?thesis
    proof (cases "g (xs ! i) = a")
      case True
      then have "g (xs ! j) \<noteq> a" using gi by simp
      with True assms(3) [OF mem True] show ?thesis by simp
    next
      case False
      show ?thesis
      proof (cases "g (xs ! j) = a")
        case True
        from assms(3) [OF mem(2) mem(1) True False] True False show ?thesis by simp
      next
        case False
        with \<open>g (xs ! i) \<noteq> a\<close> ci show ?thesis by simp
      qed
    qed
  qed
  then show ?thesis
    by (simp add: distinct_conv_nth)
qed

lemma distinct_map_neq:
  assumes "distinct (map c xs)" and "x \<in> set xs" and "y \<in> set xs" and "x \<noteq> y"
  shows "c x \<noteq> c y"
  using assms by (meson distinct_map inj_on_def)

text \<open>
  When UpdateUser succeeds: the storage answers, the table satisfies its constraints, a row
  has the id, and no other row has the email or the username the request asks for.
\<close>

lemma UpdateUser_succeeds:
  assumes "fault db = None" and "unique_ok (users db)"
    and "r \<in> set (users db)" and "col_id r = int32 i"
    and "\<forall>x\<in>set (users db). col_id x \<noteq> int32 i \<longrightarrow>
           upd_Email req \<noteq> Some (col_email x) \<and> upd_Username req \<noteq> Some (col_username x)"
  shows "\<exists>resp db'. UpdateUser db i req = (Inr resp, db')"
proof -
  let ?p = "UpdateUser_params i req"
  let ?u = "update_row ?p (now db)"
  let ?rows = "map (\<lambda>x. if col_id x = int32 i then ?u x else x) (users db)"
  from assms(2) have d: "distinct (map col_id (users db))" "distinct (map col_email (users db))"
    "distinct (map col_username (users db))"
    by (simp_all add: unique_ok_def)
  have "col_id \<circ> (\<lambda>x. if col_id x = int32 i then ?u x else x) = col_id"
    by (auto simp: fun_eq_iff update_row_fields(1))
  then have "map col_id ?rows = map col_id (users db)"
    by (simp only: map_map)
  then have 1: "distinct (map col_id ?rows)" using d(1) by (simp only:)
  have 2: "distinct (map col_email ?rows)"
  proof (rule distinct_map_update [OF d(1) d(2)])
    fix x y assume xy: "x \<in> set (users db)" "y \<in> set (users db)"
      "col_id x = int32 i" "col_id y \<noteq> int32 i"
    then have "col_email x \<noteq> col_email y"
      by (intro distinct_map_neq [OF d(2)]) auto
    moreover have "upd_Email req \<noteq> Some (col_email y)"
      using assms(5) xy(2,4) by blast
    ultimately show "col_email (?u x) \<noteq> col_email y"
      by (auto simp: update_row_fields params_values COALESCE_def split: option.splits)
  qed
  have 3: "distinct (map col_username ?rows)"
  proof (rule distinct_map_update [OF d(1) d(3)])
    fix x y assume xy: "x \<in> set (users db)" "y \<in> set (users db)"
      "col_id x = int32 i" "col_id y \<noteq> int32 i"
    then have "col_username x \<noteq> col_username y"
      by (intro distinct_map_neq [OF d(3)]) auto
    moreover have "upd_Username req \<noteq> Some (col_username y)"
      using assms(5) xy(2,4) by blast
    ultimately show "col_username (?u x) \<noteq> col_username y"
      by (auto simp: update_row_fields params_values COALESCE_def split: option.splits)
  qed
  have u: "unique_ok ?rows"
    unfolding unique_ok_def using 1 2 3 by blast
  from assms(3,4) have "find (\<lambda>r. col_id r = int32 i) (users db) \<noteq> None"
    by (auto simp: find_None_iff)
  then obtain r0 where "find (\<lambda>r. col_id r = int32 i) (users db) = Some r0"
    by blast
  then show ?thesis
    using assms(1) u
    by (simp add: UpdateUser_def sql_UpdateUser_def params_values Let_def)
qed

text \<open>
  C1. Whenever UpdateUser succeeds, in the stored user with the requested id each of email,
  username, first_name, last_name and is_active keeps its stored value when the request
  leaves the field out (\<open>nil\<close>), and takes the value of the request when the field is
  present, the empty string included; the response is the wire form of the row as stored.
\<close>

theorem UpdateUser_coalesce:
  assumes "UpdateUser db i req = (Inr resp, db')"
    and "k < length (users db)" and "col_id (users db ! k) = int32 i"
  shows "length (users db') = length (users db)
    \<and> col_id (users db' ! k) = int32 i
    \<and> col_email (users db' ! k) =
        (case upd_Email req of None \<Rightarrow> col_email (users db ! k) | Some v \<Rightarrow> v)
    \<and> col_username (users db' ! k) =
        (case upd_Username req of None \<Rightarrow> col_username (users db ! k) | Some v \<Rightarrow> v)
    \<and> col_first_name (users db' ! k) =
        (case upd_FirstName req of None \<Rightarrow> col_first_name (users db ! k) | Some v \<Rightarrow> Some v)
    \<and> col_last_name (users db' ! k) =
        (case upd_LastName req of None \<Rightarrow> col_last_name (users db ! k) | Some v \<Rightarrow> Some v)
    \<and> col_is_active (users db' ! k) =
        (case upd_IsActive req of None \<Rightarrow> col_is_active (users db ! k) | Some v \<Rightarrow> v)
    \<and> resp = toUserResponse (scan_User (users db' ! k))"
proof -
  let ?p = "UpdateUser_params i req"
  let ?f = "\<lambda>x. if col_id x = par_ID ?p then update_row ?p (now db) x else x"
  from assms(1) obtain user where sql: "sql_UpdateUser db ?p = (Inr user, db')"
    and resp: "resp = toUserResponse user"
    by (auto simp: UpdateUser_def split: prod.splits sum.splits if_splits)
  from sql_UpdateUser_Inr [OF sql] obtain r where
    rows: "users db' = map ?f (users db)" and uniq: "unique_ok (users db')"
    and r: "find (\<lambda>r. col_id r = par_ID ?p) (users db) = Some r"
    and user: "user = scan_User (update_row ?p (now db) r)"
    by blast
  have ids: "map col_id (users db') = map col_id (users db)"
    unfolding rows by (simp add: update_row_fields(1))
  have "distinct (map col_id (users db))"
    using uniq ids by (simp add: unique_ok_def)
  then have rk: "r = users db ! k"
    using r assms(2,3) by (intro find_distinct_key [where g = col_id]) (simp_all add: params_values)
  have new: "users db' ! k = update_row ?p (now db) (users db ! k)"
    using assms(2,3) by (simp add: rows params_values)
  show ?thesis
    unfolding new resp user rk
    using assms(3)
    by (simp add: rows update_row_fields params_values COALESCE_def COALESCE_null_def)
qed

theorem UpdateUser_coalesce_witness:
  "col_id (users (snd (UpdateUser two_users 1 clear_first_name)) ! 0) = 1
   \<and> col_email (users (snd (UpdateUser two_users 1 clear_first_name)) ! 0) = ''a@x.com''
   \<and> col_username (users (snd (UpdateUser two_users 1 clear_first_name)) ! 0) = ''ann''
   \<and> col_first_name (users (snd (UpdateUser two_users 1 clear_first_name)) ! 0) = Some []
   \<and> col_last_name (users (snd (UpdateUser two_users 1 clear_first_name)) ! 0) = None
   \<and> col_is_active (users (snd (UpdateUser two_users 1 clear_first_name)) ! 0) = True"
proof -
  obtain resp db' where e: "UpdateUser two_users 1 clear_first_name = (Inr resp, db')"
    by (simp add: UpdateUser_def sql_UpdateUser_def UpdateUser_params_def Let_def int32_id
          unique_ok_def update_row_def two_users_def ann_def bob_def clear_first_name_def
          NullString_zero_def NullBool_zero_def NullString_Value_def NullBool_Value_def
          COALESCE_def COALESCE_null_def)
  have k: "0 < length (users two_users)" "col_id (users two_users ! 0) = int32 1"
    by (simp_all add: two_users_def ann_def int32_id)
  from UpdateUser_coalesce [OF e k]
  have "col_id (users db' ! 0) = 1
   \<and> col_email (users db' ! 0) = ''a@x.com''
   \<and> col_username (users db' ! 0) = ''ann''
   \<and> col_first_name (users db' ! 0) = Some []
   \<and> col_last_name (users db' ! 0) = None
   \<and> col_is_active (users db' ! 0) = True"
    by (simp add: clear_first_name_def two_users_def ann_def int32_id)
  then show ?thesis by (simp add: e)
qed

section \<open>Create: empty and omitted names\<close>

lemma sql_CreateUser_Inr:
  assumes "sql_CreateUser db p = (Inr user, db')"
  shows "\<exists>row. users db' = users db @ [row] \<and> user = scan_User row
           \<and> unique_ok (users db @ [row]) \<and> fault db' = None
           \<and> col_id row = users_id_seq db + 1 \<and> col_id row \<le> 2147483647
           \<and> col_first_name row = NullString_Value (ins_FirstName p)
           \<and> col_last_name row = NullString_Value (ins_LastName p)"
  using assms
  by (auto simp: sql_CreateUser_def Let_def split: option.splits if_splits)

text \<open>
  C9, as the claim states it, fails: a create request whose \<open>first_name\<close> is the empty string
  is stored with \<open>first_name\<close> NULL, not the empty string, and is read back without a first
  name, both in the response of the create and by a later GetUserByID.
\<close>

theorem CreateUser_empty_name_is_NULL:
  "map col_first_name (users (snd (CreateUser plain_generate two_users empty_first_name)))
     = [Some ''Ann'', None, None]
   \<and> col_first_name (last (users (snd (CreateUser plain_generate two_users empty_first_name))))
       \<noteq> Some []
   \<and> map_sum id resp_FirstName (fst (CreateUser plain_generate two_users empty_first_name))
       = Inr None
   \<and> map_sum id resp_FirstName
        (GetUserByID (snd (CreateUser plain_generate two_users empty_first_name)) 3) = Inr None"
  by (simp add: CreateUser_def sql_CreateUser_def plain_generate_def empty_first_name_def
        two_users_def ann_def bob_def unique_ok_def NullString_Value_def scan_User_def
        NullString_Scan_def toUserResponse_def GetUserByID_def sql_GetUserByID_def int32_id)

text \<open>
  C9, amended. Whenever CreateUser succeeds, the new row stores a name of the request that is
  not empty as that string and an empty name as NULL (the request struct holds plain strings,
  so an omitted name is the empty string too); the response carries the names as stored, and
  GetUserByID on the new id returns the same response.
\<close>

theorem CreateUser_names:
  assumes "CreateUser generate db req = (Inr resp, db')" and "0 \<le> users_id_seq db"
  shows "users db' = users db @ [last (users db')]
    \<and> col_id (last (users db')) = resp_ID resp
    \<and> col_first_name (last (users db')) =
        (if req_FirstName req = [] then None else Some (req_FirstName req))
    \<and> col_last_name (last (users db')) =
        (if req_LastName req = [] then None else Some (req_LastName req))
    \<and> resp_FirstName resp = col_first_name (last (users db'))
    \<and> resp_LastName resp = col_last_name (last (users db'))
    \<and> GetUserByID db' (resp_ID resp) = Inr resp"
proof -
  from assms(1) obtain h user where
    sql: "sql_CreateUser db
            \<lparr>ins_Email = req_Email req, ins_Username = req_Username req, ins_PasswordHash = h,
             ins_FirstName = \<lparr>String = req_FirstName req, Valid = (req_FirstName req \<noteq> [])\<rparr>,
             ins_LastName = \<lparr>String = req_LastName req, Valid = (req_LastName req \<noteq> [])\<rparr>\<rparr>
          = (Inr user, db')"
    and resp: "resp = toUserResponse user"
    by (auto simp: CreateUser_def split: sum.splits prod.splits)
  from sql_CreateUser_Inr [OF sql] obtain row where
    rows: "users db' = users db @ [row]" and user: "user = scan_User row"
    and uniq: "unique_ok (users db @ [row])" and up: "fault db' = None"
    and rid: "col_id row = users_id_seq db + 1" "col_id row \<le> 2147483647"
    and first: "col_first_name row = (if req_FirstName req = [] then None else Some (req_FirstName req))"
    and lastn: "col_last_name row = (if req_LastName req = [] then None else Some (req_LastName req))"
    by (auto simp: NullString_Value_def)
  have l: "last (users db') = row" by (simp add: rows)
  have id: "resp_ID resp = col_id row"
    by (simp add: resp user toUserResponse_def scan_User_def Let_def)
  have names: "resp_FirstName resp = col_first_name row" "resp_LastName resp = col_last_name row"
    by (simp_all add: resp user toUserResponse_def scan_User_def Let_def NullString_Scan_def
          split: option.splits)
  have "int32 (col_id row) = col_id row"
    using rid assms(2) by (intro int32_id) simp_all
  moreover have "col_id row \<notin> col_id ` set (users db)"
    using uniq by (simp add: unique_ok_def)
  then have "\<forall>x\<in>set (users db). \<not> col_id x = col_id row"
    by (metis imageI)
  then have "find (\<lambda>r. col_id r = col_id row) (users db @ [row]) = Some row"
    by (rule find_snoc_new) simp
  ultimately have "GetUserByID db' (col_id row) = Inr (toUserResponse (scan_User row))"
    by (simp add: GetUserByID_def sql_GetUserByID_def up rows)
  then have "GetUserByID db' (resp_ID resp) = Inr resp"
    unfolding id by (simp add: resp user)
  then show ?thesis
    by (simp add: l id names first lastn rows)
qed

theorem CreateUser_names_witness:
  "col_first_name (last (users (snd (CreateUser plain_generate two_users empty_first_name))))
     = None
   \<and> col_last_name (last (users (snd (CreateUser plain_generate two_users empty_first_name))))
     = Some ''Lee''
   \<and> map_sum id resp_FirstName
        (GetUserByID (snd (CreateUser plain_generate two_users empty_first_name)) 3) = Inr None
   \<and> map_sum id resp_LastName
        (GetUserByID (snd (CreateUser plain_generate two_users empty_first_name)) 3)
      = Inr (Some ''Lee'')"
proof -
  obtain resp db' where e: "CreateUser plain_generate two_users empty_first_name = (Inr resp, db')"
    and i: "resp_ID resp = 3"
    by (simp add: CreateUser_def sql_CreateUser_def plain_generate_def empty_first_name_def
        two_users_def ann_def bob_def unique_ok_def NullString_Value_def scan_User_def
        NullString_Scan_def toUserResponse_def)
  have s: "0 \<le> users_id_seq two_users" by (simp add: two_users_def)
  from CreateUser_names [OF e s]
  have "col_first_name (last (users db')) = None
    \<and> col_last_name (last (users db')) = Some ''Lee''
    \<and> resp_FirstName resp = None \<and> resp_LastName resp = Some ''Lee''
    \<and> GetUserByID db' 3 = Inr resp"
    by (simp add: empty_first_name_def i)
  then show ?thesis by (simp add: e)
qed

section \<open>Pagination\<close>















section \<open>What the List handler passes on\<close>

text \<open>
  After the handler's guards the request has \<open>page\<close> at least 1 and \<open>page_size\<close> from 1
  to 100, so the division in ListUsers has a divisor that is not zero.
\<close>

lemma ListUsers_request_in_range:
  assumes "ListUsers_request q = Some req"
  shows "1 \<le> Page req \<and> 1 \<le> PageSize req \<and> PageSize req \<le> 100"
  using assms
  by (cases q) (auto simp: ListUsers_request_def validate_ListUsers_def Let_def
      split: option.splits if_splits)

lemma ListUsers_no_panic_after_validation:
  assumes "ListUsers_request q = Some req"
  shows "ListUsers db req \<noteq> Panics"
  using ListUsers_request_in_range [OF assms]
  by (auto simp: ListUsers_def Let_def split: sum.splits)

text \<open>
  C10 says that after the handler's guards the division never has a zero divisor and the
  computed offset is never negative. The first part is the two lemmas above. The offset can
  be negative: at \<open>page = 9223372036854775807\<close>, \<open>page_size = 100\<close> the request passes
  the guards unchanged, the multiplication wraps around in 64 bits and the offset is -200;
  the storage rejects the negative OFFSET and the handler answers 500.
\<close>

theorem ListUsers_offset_negative:
  "ListUsers_request (Query (Some 9223372036854775807) (Some 100))
     = Some \<lparr>Page = 9223372036854775807, PageSize = 100\<rparr>
   \<and> ListUsers_offset \<lparr>Page = 9223372036854775807, PageSize = 100\<rparr> = - 200
   \<and> int32 (ListUsers_offset \<lparr>Page = 9223372036854775807, PageSize = 100\<rparr>) = - 200
   \<and> UserHandler_ListUsers two_users (Query (Some 9223372036854775807) (Some 100)) =
       \<lparr>status = 500,
        body = ErrorJSON \<lparr>Error = ErrorText (ErrList (DriverError ''OFFSET must not be negative'')),
                          Code = ''LIST_USERS_ERROR''\<rparr>\<rparr>"
  by (simp add: UserHandler_ListUsers_def ListUsers_request_def validate_ListUsers_def
        ListUsers_def ListUsers_offset_def int_mul_def int_sub_def wrap64_def int32_def
        sql_ListUsers_def two_users_def Let_def)

end
